theory Spec2Isabelle
  imports Main "HOL-Library.Multiset"
begin

section \<open>The CRD schema checker\<close>

subsection \<open>Data model\<close>

text \<open>
  The fields of \<open>apiextensionsv1.JSONSchemaProps\<close> that the checker reads: the type tag,
  the format qualifier and the nested property map. A Go map that is nil reads like an
  empty one, so both are \<open>Map.empty\<close>.
\<close>

datatype JSONSchemaProps =
  JSONSchemaProps (Type: string) (Format: string)
    (Properties: "string \<Rightarrow> JSONSchemaProps option")

text \<open>The pointer fields \<open>Schema\<close> and \<open>OpenAPIV3Schema\<close> may be nil: \<open>None\<close>.\<close>

record CustomResourceValidation =
  OpenAPIV3Schema :: "JSONSchemaProps option"

record CustomResourceDefinitionVersion =
  Name :: string
  Schema :: "CustomResourceValidation option"

record CustomResourceDefinitionSpec =
  Versions :: "CustomResourceDefinitionVersion list"

record CustomResourceDefinition =
  Spec :: CustomResourceDefinitionSpec

text \<open>
  What the program prints, one constructor for each print statement of the source
  (the \<open>fmt\<close> lines go to standard output, the \<open>log\<close> lines to the logger).
\<close>

datatype line =
    PropFail string
      \<comment> \<open>\<open>FAIL: Expected property '%s' not found in CRD schema.\<close>\<close>
  | PropOk string
      \<comment> \<open>\<open>OK: Property '%s' found in CRD schema.\<close>\<close>
  | LogRunning string
      \<comment> \<open>\<open>===== Running Check for: %s =====\<close>\<close>
  | LogFatalUnmarshal string string
      \<comment> \<open>\<open>Failed to unmarshal mock CRD yaml for %s: %v\<close>\<close>
  | LogFatalConvert string string
      \<comment> \<open>\<open>Failed to convert unstructured object for %s: %v\<close>\<close>
  | LogConverted
      \<comment> \<open>\<open>Successfully converted unstructured object to typed CRD.\<close>\<close>
  | LogNoV1Schema string
      \<comment> \<open>\<open>Could not find v1 schema in the CRD: %s\<close>\<close>
  | LogCheckingSpec
      \<comment> \<open>\<open>--- Checking if CRD Spec schema is up-to-date ---\<close>\<close>
  | LogMissingSpec string
      \<comment> \<open>\<open>CRD schema for %s is missing 'spec' property.\<close>\<close>
  | LogCheckingStatus
      \<comment> \<open>\<open>--- Checking if CRD Status schema is up-to-date ---\<close>\<close>
  | LogMissingStatus string
      \<comment> \<open>\<open>CRD schema for %s is missing 'status' property.\<close>\<close>
  | CheckComplete
      \<comment> \<open>\<open>--- Check complete ---\<close>\<close>
  | LogUpToDate
      \<comment> \<open>\<open>Conclusion: The installed CustomResourceDefinition schema appears to be up-to-date.\<close>\<close>
  | LogOutOfDate
      \<comment> \<open>\<open>Conclusion: The installed CustomResourceDefinition schema is out-of-date.\<close>\<close>
  | LogSpecPropertiesMissing
      \<comment> \<open>\<open>-> 'spec' properties are missing.\<close>\<close>
  | LogStatusPropertiesMissing
      \<comment> \<open>\<open>-> 'status' properties are missing.\<close>\<close>
  | BlankLine

subsection \<open>compareSchemaProperties\<close>

text \<open>
  \<open>for key := range expected\<close> visits the keys of a Go map in an order the runtime
  chooses. The expected map is therefore given as the list of its entries in the order the
  loop visits them; the keys of a map are distinct. The loop carries
  \<open>allPropertiesFound\<close> and the lines printed so far.
\<close>

fun compareLoop ::
  "(string \<Rightarrow> JSONSchemaProps option) \<Rightarrow> (string \<times> JSONSchemaProps) list
    \<Rightarrow> bool \<times> line list \<Rightarrow> bool \<times> line list" where
  "compareLoop actual [] st = st"
| "compareLoop actual ((key, d) # rest) (allPropertiesFound, out) =
     (case actual key of
        None \<Rightarrow> compareLoop actual rest (False, out @ [PropFail key])
      | Some v \<Rightarrow> compareLoop actual rest (allPropertiesFound, out @ [PropOk key]))"

definition compareSchemaProperties ::
  "(string \<Rightarrow> JSONSchemaProps option) \<Rightarrow> (string \<times> JSONSchemaProps) list
    \<Rightarrow> bool \<times> line list" where
  "compareSchemaProperties actual expected = compareLoop actual expected (True, [])"

text \<open>The keys reported as not found, in the order of their \<open>FAIL\<close> lines.\<close>

fun missing :: "line list \<Rightarrow> string list" where
  "missing [] = []"
| "missing (PropFail k # ls) = k # missing ls"
| "missing (l # ls) = missing ls"

text \<open>The report line of one key.\<close>

definition report :: "(string \<Rightarrow> JSONSchemaProps option) \<Rightarrow> string \<Rightarrow> line" where
  "report actual key = (case actual key of None \<Rightarrow> PropFail key | Some v \<Rightarrow> PropOk key)"

subsection \<open>checkCRD\<close>

text \<open>
  Steps 1 and 2 of \<open>checkCRD\<close> call \<open>yaml.Unmarshal\<close> and
  \<open>DefaultUnstructuredConverter.FromUnstructured\<close>, which are libraries outside this
  repository. Their outcome on the YAML text is the argument of the model: either of them
  failed with an error text, or they produced the typed CRD.
\<close>

datatype decoded =
    UnmarshalFailed string
  | ConvertFailed string
  | Typed CustomResourceDefinition

text \<open>\<open>log.Fatalf\<close> ends the process with exit code 1; otherwise the function returns.\<close>

datatype ending = Returned | Exited nat

text \<open>The two map literals of step 3, in the order the source writes their entries.\<close>

definition expectedSpecProperties :: "(string \<times> JSONSchemaProps) list" where
  "expectedSpecProperties =
     [(''foo'', JSONSchemaProps ''string'' [] Map.empty),
      (''bar'', JSONSchemaProps ''integer'' ''int64'' Map.empty)]"

definition expectedStatusProperties :: "(string \<times> JSONSchemaProps) list" where
  "expectedStatusProperties =
     [(''message'', JSONSchemaProps ''string'' [] Map.empty),
      (''ready'', JSONSchemaProps ''boolean'' [] Map.empty)]"

text \<open>
  A map of two entries is visited in one of two orders: as written, or swapped. The
  runtime's choice for each of the two maps is an argument of \<open>checkCRD\<close>.
\<close>

definition visit :: "bool \<Rightarrow> 'a list \<Rightarrow> 'a list" where
  "visit swapped entries = (if swapped then rev entries else entries)"

text \<open>
  Step 4, the loop over \<open>crd.Spec.Versions\<close>: \<open>v1schema\<close> starts as nil and takes the
  \<open>Schema\<close> pointer of the first version named \<open>v1\<close>, where the loop breaks.
\<close>

fun findV1schema ::
  "CustomResourceDefinitionVersion list \<Rightarrow> CustomResourceValidation option" where
  "findV1schema [] = None"
| "findV1schema (version # rest) =
     (if Name version = ''v1'' then Schema version else findV1schema rest)"

text \<open>The lines after \<open>--- Check complete ---\<close>.\<close>

definition conclusion :: "bool \<Rightarrow> bool \<Rightarrow> line list" where
  "conclusion specUpToDate statusUpToDate =
     (if specUpToDate \<and> statusUpToDate then [LogUpToDate]
      else [LogOutOfDate]
        @ (if \<not> specUpToDate then [LogSpecPropertiesMissing] else [])
        @ (if \<not> statusUpToDate then [LogStatusPropertiesMissing] else []))"

definition checkCRD ::
  "bool \<Rightarrow> bool \<Rightarrow> string \<Rightarrow> decoded \<Rightarrow> line list \<times> ending" where
  "checkCRD specSwapped statusSwapped crdName crdYaml =
     (let out0 = [LogRunning crdName] in
      (case crdYaml of
         UnmarshalFailed err \<Rightarrow> (out0 @ [LogFatalUnmarshal crdName err], Exited 1)
       | ConvertFailed err \<Rightarrow> (out0 @ [LogFatalConvert crdName err], Exited 1)
       | Typed crd \<Rightarrow>
          (let out1 = out0 @ [LogConverted] in
           (case findV1schema (Versions (Spec crd)) of
              None \<Rightarrow> (out1 @ [LogNoV1Schema crdName], Returned)
            | Some v1schema \<Rightarrow>
               (case OpenAPIV3Schema v1schema of
                  None \<Rightarrow> (out1 @ [LogNoV1Schema crdName], Returned)
                | Some actualCRDSchema \<Rightarrow>
                   (let out2 = out1 @ [LogCheckingSpec] in
                    (case Properties actualCRDSchema ''spec'' of
                       None \<Rightarrow> (out2 @ [LogMissingSpec crdName], Returned)
                     | Some specSchema \<Rightarrow>
                        (let (specUpToDate, outSpec) =
                               compareSchemaProperties (Properties specSchema)
                                 (visit specSwapped expectedSpecProperties);
                             out3 = out2 @ outSpec @ [LogCheckingStatus] in
                         (case Properties actualCRDSchema ''status'' of
                            None \<Rightarrow> (out3 @ [LogMissingStatus crdName], Returned)
                          | Some statusSchema \<Rightarrow>
                             (let (statusUpToDate, outStatus) =
                                    compareSchemaProperties (Properties statusSchema)
                                      (visit statusSwapped expectedStatusProperties);
                                  out4 = out3 @ outStatus @ [CheckComplete]
                              in (out4 @ conclusion specUpToDate statusUpToDate
                                    @ [BlankLine],
                                  Returned)))))))))))"

text \<open>
  The typed CRDs that the two YAML texts of the source denote: each has the one version
  \<open>v1\<close> with a schema of type object and the sections \<open>spec\<close> and \<open>status\<close>. In
  \<open>mockOutOfDateCRDFromCluster\<close> the sections hold \<open>foo\<close> and \<open>message\<close>; in
  \<open>mockUpToDateCRDFromCluster\<close> they hold \<open>foo\<close>, \<open>bar\<close> and \<open>message\<close>,
  \<open>ready\<close>.
\<close>

definition outOfDateSchema :: JSONSchemaProps where
  "outOfDateSchema =
     JSONSchemaProps ''object'' []
       (Map.empty
         (''spec'' \<mapsto> JSONSchemaProps ''object'' []
            (Map.empty(''foo'' \<mapsto> JSONSchemaProps ''string'' [] Map.empty)),
          ''status'' \<mapsto> JSONSchemaProps ''object'' []
            (Map.empty(''message'' \<mapsto> JSONSchemaProps ''string'' [] Map.empty))))"

definition upToDateSchema :: JSONSchemaProps where
  "upToDateSchema =
     JSONSchemaProps ''object'' []
       (Map.empty
         (''spec'' \<mapsto> JSONSchemaProps ''object'' []
            (Map.empty(''foo'' \<mapsto> JSONSchemaProps ''string'' [] Map.empty,
                       ''bar'' \<mapsto> JSONSchemaProps ''integer'' ''int64'' Map.empty)),
          ''status'' \<mapsto> JSONSchemaProps ''object'' []
            (Map.empty(''message'' \<mapsto> JSONSchemaProps ''string'' [] Map.empty,
                       ''ready'' \<mapsto> JSONSchemaProps ''boolean'' [] Map.empty))))"

definition mockOutOfDateCRDFromCluster :: CustomResourceDefinition where
  "mockOutOfDateCRDFromCluster =
     \<lparr>Spec = \<lparr>Versions =
       [\<lparr>Name = ''v1'', Schema = Some \<lparr>OpenAPIV3Schema = Some outOfDateSchema\<rparr>\<rparr>]\<rparr>\<rparr>"

definition mockUpToDateCRDFromCluster :: CustomResourceDefinition where
  "mockUpToDateCRDFromCluster =
     \<lparr>Spec = \<lparr>Versions =
       [\<lparr>Name = ''v1'', Schema = Some \<lparr>OpenAPIV3Schema = Some upToDateSchema\<rparr>\<rparr>]\<rparr>\<rparr>"

text \<open>
  Further documents, for the paths the two mock documents do not take: only a version
  \<open>v2\<close>; a version \<open>v1\<close> without schema; a \<open>v1\<close> schema without the \<open>spec\<close>
  section; one without the \<open>status\<close> section; and two versions named \<open>v1\<close> after a
  \<open>v2\<close>.
\<close>

definition docOnlyV2 :: CustomResourceDefinition where
  "docOnlyV2 =
     \<lparr>Spec = \<lparr>Versions =
       [\<lparr>Name = ''v2'', Schema = Some \<lparr>OpenAPIV3Schema = Some upToDateSchema\<rparr>\<rparr>]\<rparr>\<rparr>"

definition docV1NoSchema :: CustomResourceDefinition where
  "docV1NoSchema =
     \<lparr>Spec = \<lparr>Versions =
       [\<lparr>Name = ''v1'', Schema = Some \<lparr>OpenAPIV3Schema = None\<rparr>\<rparr>,
        \<lparr>Name = ''v1'', Schema = Some \<lparr>OpenAPIV3Schema = Some upToDateSchema\<rparr>\<rparr>]\<rparr>\<rparr>"

definition statusOnlySchema :: JSONSchemaProps where
  "statusOnlySchema =
     JSONSchemaProps ''object'' []
       (Map.empty
         (''status'' \<mapsto> JSONSchemaProps ''object'' []
            (Map.empty(''message'' \<mapsto> JSONSchemaProps ''string'' [] Map.empty))))"

definition specOnlySchema :: JSONSchemaProps where
  "specOnlySchema =
     JSONSchemaProps ''object'' []
       (Map.empty
         (''spec'' \<mapsto> JSONSchemaProps ''object'' []
            (Map.empty(''foo'' \<mapsto> JSONSchemaProps ''string'' [] Map.empty))))"

definition docNoSpec :: CustomResourceDefinition where
  "docNoSpec =
     \<lparr>Spec = \<lparr>Versions =
       [\<lparr>Name = ''v1'', Schema = Some \<lparr>OpenAPIV3Schema = Some statusOnlySchema\<rparr>\<rparr>]\<rparr>\<rparr>"

definition docNoStatus :: CustomResourceDefinition where
  "docNoStatus =
     \<lparr>Spec = \<lparr>Versions =
       [\<lparr>Name = ''v1'', Schema = Some \<lparr>OpenAPIV3Schema = Some specOnlySchema\<rparr>\<rparr>]\<rparr>\<rparr>"


subsection \<open>The verdict of a run\<close>

text \<open>
  The specification speaks of the verdict of an evaluation. The program returns nothing
  and logs its conclusion, so the verdict is read from the lines of a run, each verdict
  from the line that states it: a fatal line is \<open>Unparseable\<close>, the line of a missing v1
  schema is \<open>VersionNotFound\<close>, the line of a missing section is \<open>SectionMissing\<close>, the
  up-to-date conclusion is \<open>UpToDate\<close> and the out-of-date conclusion is \<open>OutOfDate\<close>.
  The out-of-date verdict carries, for a section that the conclusion names as missing
  properties, the keys of the \<open>FAIL\<close> lines of that section (those printed before the
  header of the status check for \<open>spec\<close>, those printed after it for \<open>status\<close>), and
  the empty list for a section the conclusion does not name. A run that logs none of these
  lines has no verdict.
\<close>

datatype Verdict =
    UpToDate
  | OutOfDate "string list" "string list"
  | Unparseable
  | SectionMissing string
  | VersionNotFound

fun isFatal :: "line \<Rightarrow> bool" where
  "isFatal (LogFatalUnmarshal n e) = True"
| "isFatal (LogFatalConvert n e) = True"
| "isFatal l = False"

fun isNoV1Schema :: "line \<Rightarrow> bool" where
  "isNoV1Schema (LogNoV1Schema n) = True"
| "isNoV1Schema l = False"

fun isMissingSpec :: "line \<Rightarrow> bool" where
  "isMissingSpec (LogMissingSpec n) = True"
| "isMissingSpec l = False"

fun isMissingStatus :: "line \<Rightarrow> bool" where
  "isMissingStatus (LogMissingStatus n) = True"
| "isMissingStatus l = False"

fun isPropertyCheck :: "line \<Rightarrow> bool" where
  "isPropertyCheck (PropFail k) = True"
| "isPropertyCheck (PropOk k) = True"
| "isPropertyCheck l = False"

definition specReport :: "line list \<Rightarrow> line list" where
  "specReport t = takeWhile (\<lambda>l. l \<noteq> LogCheckingStatus) t"

definition statusReport :: "line list \<Rightarrow> line list" where
  "statusReport t = dropWhile (\<lambda>l. l \<noteq> LogCheckingStatus) t"

definition verdict :: "line list \<Rightarrow> Verdict option" where
  "verdict t =
     (if list_ex isFatal t then Some Unparseable
      else if list_ex isNoV1Schema t then Some VersionNotFound
      else if list_ex isMissingSpec t then Some (SectionMissing ''spec'')
      else if list_ex isMissingStatus t then Some (SectionMissing ''status'')
      else if list_ex (\<lambda>l. l = LogUpToDate) t then Some UpToDate
      else if list_ex (\<lambda>l. l = LogOutOfDate) t then
        Some (OutOfDate
          (if list_ex (\<lambda>l. l = LogSpecPropertiesMissing) t
           then missing (specReport t) else [])
          (if list_ex (\<lambda>l. l = LogStatusPropertiesMissing) t
           then missing (statusReport t) else []))
      else None)"

definition evaluate ::
  "bool \<Rightarrow> bool \<Rightarrow> string \<Rightarrow> CustomResourceDefinition \<Rightarrow> Verdict option" where
  "evaluate specSwapped statusSwapped crdName crd =
     verdict (fst (checkCRD specSwapped statusSwapped crdName (Typed crd)))"

section \<open>The file-writing program\<close>

text \<open>
  The world the program acts on: the lines on standard output and standard error, the
  directories, and the files with their lines. \<open>time.Now\<close>, \<open>os.MkdirAll\<close> and
  \<open>os.Create\<close> are answered by the system: the formatted timestamp and the error of
  each of the three calls (\<open>None\<close> for nil) are arguments of the model. The source
  discards the results of its \<open>Println\<close> and \<open>Fprintln\<close> calls; in the model each write
  appends its line. \<open>os.Create\<close> leaves an empty file, also where one existed.
\<close>

record world =
  stdout :: "string list"
  stderr :: "string list"
  dirs :: "string set"
  files :: "string \<Rightarrow> string list option"

record system =
  mkdirAllErr :: "string option"
  createOutputErr :: "string option"
  createErrorErr :: "string option"

text \<open>\<open>fmt.Fprintln\<close> on an open file: the line is appended to the file at that path.\<close>

definition fprintln :: "string \<Rightarrow> string \<Rightarrow> world \<Rightarrow> world" where
  "fprintln path s w =
     w\<lparr>files := (files w)(path \<mapsto>
         (case files w path of None \<Rightarrow> [] | Some ls \<Rightarrow> ls) @ [s])\<rparr>"

definition main :: "string \<Rightarrow> system \<Rightarrow> world \<Rightarrow> world \<times> nat" where
  "main timestamp sys w =
     (let resultsDir = ''results'' in
      (case mkdirAllErr sys of
         Some err \<Rightarrow>
           (w\<lparr>stderr := stderr w @ [''Error creating results directory: '' @ err]\<rparr>, 1)
       | None \<Rightarrow>
          (let w1 = w\<lparr>dirs := insert resultsDir (dirs w)\<rparr>;
               outputFile = resultsDir @ ''/'' @ ''output-'' @ timestamp @ ''.txt'' in
           (case createOutputErr sys of
              Some err \<Rightarrow>
                (w1\<lparr>stderr := stderr w1 @ [''Error creating output file: '' @ err]\<rparr>, 1)
            | None \<Rightarrow>
               (let w2 = w1\<lparr>files := (files w1)(outputFile \<mapsto> [])\<rparr>;
                    errorFile = resultsDir @ ''/'' @ ''error-'' @ timestamp @ ''.txt'' in
                (case createErrorErr sys of
                   Some err \<Rightarrow>
                     (w2\<lparr>stderr := stderr w2 @ [''Error creating error file: '' @ err]\<rparr>,
                      1)
                 | None \<Rightarrow>
                    (let w3 = w2\<lparr>files := (files w2)(errorFile \<mapsto> [])\<rparr>;
                         output1 = ''Hello from Go Playground!'';
                         output2 = ''This is a simple Go program that runs to completion.'';
                         w4 = w3\<lparr>stdout := stdout w3 @ [output1]\<rparr>;
                         w5 = w4\<lparr>stdout := stdout w4 @ [output2]\<rparr>;
                         w6 = fprintln outputFile output1 w5;
                         w7 = fprintln outputFile output2 w6
                     in (w7, 0))))))))"

text \<open>The message of the first call that fails.\<close>

definition failureMessage :: "system \<Rightarrow> string" where
  "failureMessage sys =
     (case mkdirAllErr sys of
        Some err \<Rightarrow> ''Error creating results directory: '' @ err
      | None \<Rightarrow>
         (case createOutputErr sys of
            Some err \<Rightarrow> ''Error creating output file: '' @ err
          | None \<Rightarrow>
             (case createErrorErr sys of
                Some err \<Rightarrow> ''Error creating error file: '' @ err
              | None \<Rightarrow> [])))"

section \<open>Theorems\<close>

subsection \<open>Properties of compareSchemaProperties\<close>

lemma compareLoop_eq:
  "compareLoop actual expected (b, out) =
     (b \<and> (\<forall>k \<in> set (map fst expected). actual k \<noteq> None),
      out @ map (report actual) (map fst expected))"
proof (induction expected arbitrary: b out)
  case Nil
  show ?case by simp
next
  case (Cons e rest)
  obtain key d where e: "e = (key, d)" by (cases e)
  show ?case
    by (cases "actual key") (auto simp: e Cons.IH report_def)
qed

lemma compareSchemaProperties_eq:
  "compareSchemaProperties actual expected =
     ((\<forall>k \<in> set (map fst expected). actual k \<noteq> None),
      map (report actual) (map fst expected))"
  by (simp add: compareSchemaProperties_def compareLoop_eq)

lemma missing_report:
  "missing (map (report actual) ks) = filter (\<lambda>k. actual k = None) ks"
  by (induction ks) (auto simp: report_def split: option.splits)

subsection \<open>Claims about compareSchemaProperties\<close>

text \<open>
  C1. \<open>compareSchemaProperties\<close> returns true exactly when every key of the expected
  map is a key of the actual map. Its result (the boolean and the printed lines) is the
  same for any other actual map with the same keys and any other expected entries with the
  same keys in the same order: descriptors are never compared, and a key present with
  another type or format counts as found.
\<close>

theorem compareSchemaProperties_subset:
  "(fst (compareSchemaProperties A B) \<longleftrightarrow> fst ` set B \<subseteq> dom A)
   \<and> (\<forall>A' B'. dom A' = dom A \<and> map fst B' = map fst B \<longrightarrow>
          compareSchemaProperties A' B' = compareSchemaProperties A B)"
proof (intro conjI allI impI)
  show "fst (compareSchemaProperties A B) \<longleftrightarrow> fst ` set B \<subseteq> dom A"
    by (auto simp: compareSchemaProperties_eq dom_def)
next
  fix A' :: "string \<Rightarrow> JSONSchemaProps option"
    and B' :: "(string \<times> JSONSchemaProps) list"
  assume h: "dom A' = dom A \<and> map fst B' = map fst B"
  then have same: "\<And>k. (A' k = None) = (A k = None)"
    by (metis domIff)
  have "report A' = report A"
  proof
    fix k
    show "report A' k = report A k"
      using same [of k] by (cases "A' k"; cases "A k") (simp_all add: report_def)
  qed
  then show "compareSchemaProperties A' B' = compareSchemaProperties A B"
    using h same unfolding compareSchemaProperties_eq by simp
qed

theorem compareSchemaProperties_subset_witness:
  "fst (compareSchemaProperties
          (Map.empty(''foo'' \<mapsto> JSONSchemaProps ''boolean'' [] Map.empty,
                     ''bar'' \<mapsto> JSONSchemaProps ''string'' ''date'' Map.empty,
                     ''baz'' \<mapsto> JSONSchemaProps ''string'' [] Map.empty))
          expectedSpecProperties)
   \<and> compareSchemaProperties
          (Map.empty(''foo'' \<mapsto> JSONSchemaProps ''string'' [] Map.empty))
          [(''foo'', JSONSchemaProps ''integer'' [] Map.empty),
           (''bar'', JSONSchemaProps ''number'' [] Map.empty)]
       = compareSchemaProperties
          (Map.empty(''foo'' \<mapsto> JSONSchemaProps ''boolean'' ''int64'' Map.empty))
          expectedSpecProperties"
proof
  have "fst ` set expectedSpecProperties
          \<subseteq> dom (Map.empty(''foo'' \<mapsto> JSONSchemaProps ''boolean'' [] Map.empty,
                     ''bar'' \<mapsto> JSONSchemaProps ''string'' ''date'' Map.empty,
                     ''baz'' \<mapsto> JSONSchemaProps ''string'' [] Map.empty))"
    by (simp add: expectedSpecProperties_def)
  then show "fst (compareSchemaProperties
          (Map.empty(''foo'' \<mapsto> JSONSchemaProps ''boolean'' [] Map.empty,
                     ''bar'' \<mapsto> JSONSchemaProps ''string'' ''date'' Map.empty,
                     ''baz'' \<mapsto> JSONSchemaProps ''string'' [] Map.empty))
          expectedSpecProperties)"
    by (rule compareSchemaProperties_subset [THEN conjunct1, THEN iffD2])
next
  have "dom (Map.empty(''foo'' \<mapsto> JSONSchemaProps ''string'' [] Map.empty))
          = dom (Map.empty(''foo'' \<mapsto> JSONSchemaProps ''boolean'' ''int64'' Map.empty))
        \<and> map fst [(''foo'', JSONSchemaProps ''integer'' [] Map.empty),
                     (''bar'', JSONSchemaProps ''number'' [] Map.empty)]
          = map fst expectedSpecProperties"
    by (simp add: expectedSpecProperties_def)
  then show "compareSchemaProperties
          (Map.empty(''foo'' \<mapsto> JSONSchemaProps ''string'' [] Map.empty))
          [(''foo'', JSONSchemaProps ''integer'' [] Map.empty),
           (''bar'', JSONSchemaProps ''number'' [] Map.empty)]
       = compareSchemaProperties
          (Map.empty(''foo'' \<mapsto> JSONSchemaProps ''boolean'' ''int64'' Map.empty))
          expectedSpecProperties"
    by (rule compareSchemaProperties_subset [THEN conjunct2, rule_format])
qed

text \<open>
  C7. For a non-empty expected map and an empty actual map the result is false, and the
  keys of the \<open>FAIL\<close> lines are exactly the expected keys, in the order the loop
  visits them.
\<close>

theorem compareSchemaProperties_empty_actual:
  "B \<noteq> [] \<Longrightarrow>
     \<not> fst (compareSchemaProperties Map.empty B)
     \<and> missing (snd (compareSchemaProperties Map.empty B)) = map fst B"
proof -
  assume "B \<noteq> []"
  then have "\<not> fst (compareSchemaProperties Map.empty B)"
    by (cases B) (auto simp: compareSchemaProperties_eq)
  moreover have "missing (snd (compareSchemaProperties Map.empty B)) = map fst B"
    unfolding compareSchemaProperties_eq snd_conv missing_report by simp
  ultimately show ?thesis by simp
qed

theorem compareSchemaProperties_empty_actual_witness:
  "expectedStatusProperties \<noteq> []
   \<and> \<not> fst (compareSchemaProperties Map.empty expectedStatusProperties)
   \<and> missing (snd (compareSchemaProperties Map.empty expectedStatusProperties))
       = [''message'', ''ready'']"
proof -
  have ne: "expectedStatusProperties \<noteq> []"
    by (simp add: expectedStatusProperties_def)
  have keys: "map fst expectedStatusProperties = [''message'', ''ready'']"
    by (simp add: expectedStatusProperties_def)
  show ?thesis
    using ne compareSchemaProperties_empty_actual [OF ne] keys by simp
qed

text \<open>
  C8. The boolean result does not depend on the order in which the expected keys are
  visited: two visiting orders with the same set of keys give the same boolean. When the
  two orders are permutations of each other (two iterations over one map), the printed
  lines are the same up to their order.
\<close>

theorem compareSchemaProperties_order_independent:
  "(set (map fst B1) = set (map fst B2) \<longrightarrow>
      fst (compareSchemaProperties A B1) = fst (compareSchemaProperties A B2))
   \<and> (mset (map fst B1) = mset (map fst B2) \<longrightarrow>
      fst (compareSchemaProperties A B1) = fst (compareSchemaProperties A B2)
      \<and> mset (snd (compareSchemaProperties A B1)) = mset (snd (compareSchemaProperties A B2)))"
proof (intro conjI impI)
  assume "set (map fst B1) = set (map fst B2)"
  then show "fst (compareSchemaProperties A B1) = fst (compareSchemaProperties A B2)"
    by (simp add: compareSchemaProperties_eq)
next
  assume m: "mset (map fst B1) = mset (map fst B2)"
  then have "set (map fst B1) = set (map fst B2)"
    by (rule mset_eq_setD)
  then show "fst (compareSchemaProperties A B1) = fst (compareSchemaProperties A B2)"
    by (simp add: compareSchemaProperties_eq)
  have "image_mset (report A) (mset (map fst B1)) = image_mset (report A) (mset (map fst B2))"
    using m by simp
  then have "mset (map (report A) (map fst B1)) = mset (map (report A) (map fst B2))"
    unfolding mset_map .
  then show "mset (snd (compareSchemaProperties A B1)) = mset (snd (compareSchemaProperties A B2))"
    unfolding compareSchemaProperties_eq snd_conv .
qed

theorem compareSchemaProperties_order_independent_witness:
  "fst (compareSchemaProperties (Map.empty(''foo'' \<mapsto> JSONSchemaProps ''string'' [] Map.empty))
          expectedSpecProperties)
    = fst (compareSchemaProperties (Map.empty(''foo'' \<mapsto> JSONSchemaProps ''string'' [] Map.empty))
          (rev expectedSpecProperties))
   \<and> mset (snd (compareSchemaProperties
          (Map.empty(''foo'' \<mapsto> JSONSchemaProps ''string'' [] Map.empty)) expectedSpecProperties))
    = mset (snd (compareSchemaProperties
          (Map.empty(''foo'' \<mapsto> JSONSchemaProps ''string'' [] Map.empty))
          (rev expectedSpecProperties)))"
proof -
  have "mset (map fst expectedSpecProperties) = mset (map fst (rev expectedSpecProperties))"
    by (simp add: rev_map [symmetric])
  then show ?thesis
    by (rule compareSchemaProperties_order_independent [THEN conjunct2, rule_format])
qed

subsection \<open>The runs of checkCRD, path by path\<close>

lemma report_simps [simp]:
  "\<not> isFatal (report A k)" "\<not> isNoV1Schema (report A k)"
  "\<not> isMissingSpec (report A k)" "\<not> isMissingStatus (report A k)"
  "isPropertyCheck (report A k)"
  "report A k \<noteq> LogCheckingStatus" "report A k \<noteq> LogUpToDate"
  "LogCheckingStatus \<noteq> report A k" "LogUpToDate \<noteq> report A k"
  "report A k \<noteq> LogOutOfDate" "LogOutOfDate \<noteq> report A k"
  "report A k \<noteq> LogSpecPropertiesMissing" "LogSpecPropertiesMissing \<noteq> report A k"
  "report A k \<noteq> LogStatusPropertiesMissing" "LogStatusPropertiesMissing \<noteq> report A k"
  by (cases "A k"; simp add: report_def)+

lemma missing_append: "missing (xs @ ys) = missing xs @ missing ys"
  by (induction xs rule: missing.induct) simp_all

lemma takeWhile_upto:
  "\<forall>x \<in> set xs. P x \<Longrightarrow> \<not> P y \<Longrightarrow> takeWhile P (xs @ y # ys) = xs"
  by (induction xs) simp_all

lemma dropWhile_upto:
  "\<forall>x \<in> set xs. P x \<Longrightarrow> \<not> P y \<Longrightarrow> dropWhile P (xs @ y # ys) = y # ys"
  by (induction xs) simp_all

lemma findV1schema_find:
  "findV1schema vs =
     (case List.find (\<lambda>v. Name v = ''v1'') vs of None \<Rightarrow> None | Some v \<Rightarrow> Schema v)"
  by (induction vs) simp_all


lemma findV1schema_none:
  "\<forall>u \<in> set vs. Name u \<noteq> ''v1'' \<Longrightarrow> findV1schema vs = None"
  by (induction vs) simp_all

lemma checkCRD_no_schema:
  assumes "findV1schema (Versions (Spec crd)) = None
           \<or> (\<exists>cv. findV1schema (Versions (Spec crd)) = Some cv \<and> OpenAPIV3Schema cv = None)"
  shows "checkCRD s t n (Typed crd) = ([LogRunning n, LogConverted, LogNoV1Schema n], Returned)"
  using assms by (auto simp: checkCRD_def)

lemma checkCRD_no_spec:
  assumes "findV1schema (Versions (Spec crd)) = Some cv" "OpenAPIV3Schema cv = Some sch"
    "Properties sch ''spec'' = None"
  shows "checkCRD s t n (Typed crd) =
           ([LogRunning n, LogConverted, LogCheckingSpec, LogMissingSpec n], Returned)"
  using assms by (simp add: checkCRD_def)

lemma checkCRD_no_status:
  assumes "findV1schema (Versions (Spec crd)) = Some cv" "OpenAPIV3Schema cv = Some sch"
    "Properties sch ''spec'' = Some sp" "Properties sch ''status'' = None"
  shows "checkCRD s t n (Typed crd) =
           ([LogRunning n, LogConverted, LogCheckingSpec]
              @ snd (compareSchemaProperties (Properties sp) (visit s expectedSpecProperties))
              @ [LogCheckingStatus, LogMissingStatus n], Returned)"
  using assms by (simp add: checkCRD_def split: prod.splits)

lemma checkCRD_both:
  assumes "findV1schema (Versions (Spec crd)) = Some cv" "OpenAPIV3Schema cv = Some sch"
    "Properties sch ''spec'' = Some sp" "Properties sch ''status'' = Some st"
  shows "checkCRD s t n (Typed crd) =
           ([LogRunning n, LogConverted, LogCheckingSpec]
              @ snd (compareSchemaProperties (Properties sp) (visit s expectedSpecProperties))
              @ [LogCheckingStatus]
              @ snd (compareSchemaProperties (Properties st) (visit t expectedStatusProperties))
              @ [CheckComplete]
              @ conclusion
                  (fst (compareSchemaProperties (Properties sp) (visit s expectedSpecProperties)))
                  (fst (compareSchemaProperties (Properties st) (visit t expectedStatusProperties)))
              @ [BlankLine], Returned)"
  using assms by (simp add: checkCRD_def split: prod.splits)

subsection \<open>The verdict of each path\<close>

lemma missing_compareSchemaProperties:
  "missing (snd (compareSchemaProperties A B)) = filter (\<lambda>k. A k = None) (map fst B)"
  by (simp only: compareSchemaProperties_eq snd_conv missing_report)

lemma fst_compareSchemaProperties_missing:
  "fst (compareSchemaProperties A B) \<longleftrightarrow> missing (snd (compareSchemaProperties A B)) = []"
  unfolding missing_compareSchemaProperties
  by (simp add: compareSchemaProperties_eq filter_empty_conv)

lemma compare_lines [simp]:
  "\<not> list_ex isFatal (snd (compareSchemaProperties A B))"
  "\<not> list_ex isNoV1Schema (snd (compareSchemaProperties A B))"
  "\<not> list_ex isMissingSpec (snd (compareSchemaProperties A B))"
  "\<not> list_ex isMissingStatus (snd (compareSchemaProperties A B))"
  "LogCheckingStatus \<notin> set (snd (compareSchemaProperties A B))"
  "\<not> list_ex (\<lambda>l. l = LogUpToDate) (snd (compareSchemaProperties A B))"
  "\<not> list_ex (\<lambda>l. l = LogOutOfDate) (snd (compareSchemaProperties A B))"
  "\<not> list_ex (\<lambda>l. l = LogSpecPropertiesMissing) (snd (compareSchemaProperties A B))"
  "\<not> list_ex (\<lambda>l. l = LogStatusPropertiesMissing) (snd (compareSchemaProperties A B))"
  by (auto simp: compareSchemaProperties_eq list_ex_iff)

lemma conclusion_lines [simp]:
  "\<not> list_ex isFatal (conclusion a b)"
  "\<not> list_ex isNoV1Schema (conclusion a b)"
  "\<not> list_ex isMissingSpec (conclusion a b)"
  "\<not> list_ex isMissingStatus (conclusion a b)"
  "list_ex (\<lambda>l. l = LogUpToDate) (conclusion a b) \<longleftrightarrow> a \<and> b"
  "list_ex (\<lambda>l. l = LogOutOfDate) (conclusion a b) \<longleftrightarrow> \<not> (a \<and> b)"
  "list_ex (\<lambda>l. l = LogSpecPropertiesMissing) (conclusion a b) \<longleftrightarrow> \<not> a"
  "list_ex (\<lambda>l. l = LogStatusPropertiesMissing) (conclusion a b) \<longleftrightarrow> \<not> b"
  "missing (conclusion a b) = []"
  by (auto simp: conclusion_def)

lemma verdict_no_schema:
  "verdict [LogRunning n, LogConverted, LogNoV1Schema n] = Some VersionNotFound"
  by (simp add: verdict_def)

lemma verdict_no_spec:
  "verdict [LogRunning n, LogConverted, LogCheckingSpec, LogMissingSpec n]
     = Some (SectionMissing ''spec'')"
  by (simp add: verdict_def)

lemma verdict_no_status:
  "verdict ([LogRunning n, LogConverted, LogCheckingSpec]
              @ snd (compareSchemaProperties A B)
              @ [LogCheckingStatus, LogMissingStatus n]) = Some (SectionMissing ''status'')"
  by (simp add: verdict_def)

lemma specReport_run:
  "specReport ([LogRunning n, LogConverted, LogCheckingSpec]
      @ snd (compareSchemaProperties A B) @ LogCheckingStatus # rest)
   = [LogRunning n, LogConverted, LogCheckingSpec] @ snd (compareSchemaProperties A B)"
proof -
  have "takeWhile (\<lambda>l. l \<noteq> LogCheckingStatus)
          (([LogRunning n, LogConverted, LogCheckingSpec] @ snd (compareSchemaProperties A B))
             @ LogCheckingStatus # rest)
        = [LogRunning n, LogConverted, LogCheckingSpec] @ snd (compareSchemaProperties A B)"
    by (rule takeWhile_upto) auto
  then show ?thesis by (simp add: specReport_def)
qed

lemma statusReport_run:
  "statusReport ([LogRunning n, LogConverted, LogCheckingSpec]
      @ snd (compareSchemaProperties A B) @ LogCheckingStatus # rest)
   = LogCheckingStatus # rest"
proof -
  have "dropWhile (\<lambda>l. l \<noteq> LogCheckingStatus)
          (([LogRunning n, LogConverted, LogCheckingSpec] @ snd (compareSchemaProperties A B))
             @ LogCheckingStatus # rest)
        = LogCheckingStatus # rest"
    by (rule dropWhile_upto) auto
  then show ?thesis by (simp add: statusReport_def)
qed

lemma verdict_both:
  "verdict ([LogRunning n, LogConverted, LogCheckingSpec]
              @ snd (compareSchemaProperties A B)
              @ [LogCheckingStatus]
              @ snd (compareSchemaProperties A' B')
              @ [CheckComplete]
              @ conclusion (fst (compareSchemaProperties A B))
                  (fst (compareSchemaProperties A' B'))
              @ [BlankLine])
   = Some (if fst (compareSchemaProperties A B) \<and> fst (compareSchemaProperties A' B')
           then UpToDate
           else OutOfDate (missing (snd (compareSchemaProperties A B)))
                          (missing (snd (compareSchemaProperties A' B'))))"
proof -
  let ?a = "fst (compareSchemaProperties A B)"
  let ?b = "fst (compareSchemaProperties A' B')"
  let ?rest = "snd (compareSchemaProperties A' B') @ [CheckComplete] @ conclusion ?a ?b
                 @ [BlankLine]"
  let ?t = "[LogRunning n, LogConverted, LogCheckingSpec]
              @ snd (compareSchemaProperties A B) @ LogCheckingStatus # ?rest"
  have sp: "missing (specReport ?t) = missing (snd (compareSchemaProperties A B))"
    unfolding specReport_run by (simp add: missing_append)
  have st: "missing (statusReport ?t) = missing (snd (compareSchemaProperties A' B'))"
    unfolding statusReport_run by (simp add: missing_append)
  have pa: "?a \<Longrightarrow> missing (snd (compareSchemaProperties A B)) = []"
    by (simp add: fst_compareSchemaProperties_missing [symmetric])
  have pb: "?b \<Longrightarrow> missing (snd (compareSchemaProperties A' B')) = []"
    by (simp add: fst_compareSchemaProperties_missing [symmetric])
  have "verdict ?t =
      (if ?a \<and> ?b then Some UpToDate
       else Some (OutOfDate (if \<not> ?a then missing (specReport ?t) else [])
                            (if \<not> ?b then missing (statusReport ?t) else [])))"
    unfolding verdict_def by simp
  then have "verdict ?t =
      Some (if ?a \<and> ?b then UpToDate
            else OutOfDate (missing (snd (compareSchemaProperties A B)))
                           (missing (snd (compareSchemaProperties A' B'))))"
    unfolding sp st using pa pb by (cases ?a; cases ?b) simp_all
  then show ?thesis by simp
qed

subsection \<open>The documents of the source and of the examples\<close>


lemma located_schema:
  assumes "List.find (\<lambda>u. Name u = ''v1'') (Versions (Spec crd)) = Some v"
    and "Schema v = Some cv"
  shows "findV1schema (Versions (Spec crd)) = Some cv"
  using assms by (simp add: findV1schema_find)

lemma outOfDateSchema_sections:
  "Properties outOfDateSchema ''spec''
     = Some (JSONSchemaProps ''object'' []
         (Map.empty(''foo'' \<mapsto> JSONSchemaProps ''string'' [] Map.empty)))"
  "Properties outOfDateSchema ''status''
     = Some (JSONSchemaProps ''object'' []
         (Map.empty(''message'' \<mapsto> JSONSchemaProps ''string'' [] Map.empty)))"
  by (simp_all add: outOfDateSchema_def)

lemma upToDateSchema_sections:
  "Properties upToDateSchema ''spec''
     = Some (JSONSchemaProps ''object'' []
         (Map.empty(''foo'' \<mapsto> JSONSchemaProps ''string'' [] Map.empty,
                    ''bar'' \<mapsto> JSONSchemaProps ''integer'' ''int64'' Map.empty)))"
  "Properties upToDateSchema ''status''
     = Some (JSONSchemaProps ''object'' []
         (Map.empty(''message'' \<mapsto> JSONSchemaProps ''string'' [] Map.empty,
                    ''ready'' \<mapsto> JSONSchemaProps ''boolean'' [] Map.empty)))"
  by (simp_all add: upToDateSchema_def)

lemma specOnlySchema_sections:
  "Properties specOnlySchema ''spec''
     = Some (JSONSchemaProps ''object'' []
         (Map.empty(''foo'' \<mapsto> JSONSchemaProps ''string'' [] Map.empty)))"
  "Properties specOnlySchema ''status'' = None"
  by (simp_all add: specOnlySchema_def)

lemma statusOnlySchema_sections:
  "Properties statusOnlySchema ''spec'' = None"
  by (simp add: statusOnlySchema_def)

lemma expected_keys:
  "map fst (visit s expectedSpecProperties)
     = (if s then [''bar'', ''foo''] else [''foo'', ''bar''])"
  "map fst (visit t expectedStatusProperties)
     = (if t then [''ready'', ''message''] else [''message'', ''ready''])"
  by (simp_all add: visit_def expectedSpecProperties_def expectedStatusProperties_def)

lemma missing_outOfDate:
  "missing (snd (compareSchemaProperties
      (Map.empty(''foo'' \<mapsto> JSONSchemaProps ''string'' [] Map.empty))
      (visit s expectedSpecProperties))) = [''bar'']"
  "missing (snd (compareSchemaProperties
      (Map.empty(''message'' \<mapsto> JSONSchemaProps ''string'' [] Map.empty))
      (visit t expectedStatusProperties))) = [''ready'']"
  by (simp_all add: missing_compareSchemaProperties expected_keys)

lemma missing_upToDate:
  "missing (snd (compareSchemaProperties
      (Map.empty(''foo'' \<mapsto> JSONSchemaProps ''string'' [] Map.empty,
                 ''bar'' \<mapsto> JSONSchemaProps ''integer'' ''int64'' Map.empty))
      (visit s expectedSpecProperties))) = []"
  "missing (snd (compareSchemaProperties
      (Map.empty(''message'' \<mapsto> JSONSchemaProps ''string'' [] Map.empty,
                 ''ready'' \<mapsto> JSONSchemaProps ''boolean'' [] Map.empty))
      (visit t expectedStatusProperties))) = []"
  by (simp_all add: missing_compareSchemaProperties expected_keys)

subsection \<open>Claims about checkCRD\<close>

text \<open>
  C2. When the first version named \<open>v1\<close> has a schema with both the \<open>spec\<close> and the
  \<open>status\<close> section, the run holds the reports of both calls of
  \<open>compareSchemaProperties\<close> and then its conclusion: the up-to-date line exactly when
  both calls returned true, otherwise the out-of-date line followed by the line naming each
  section whose call returned false. So the verdict is \<open>UpToDate\<close> exactly when both
  calls return true; otherwise it is \<open>OutOfDate\<close> with the keys each call reported
  missing, and the list of a section is empty exactly when its call returned true.
\<close>

theorem checkCRD_both_sections:
  assumes "List.find (\<lambda>u. Name u = ''v1'') (Versions (Spec crd)) = Some v"
    and "Schema v = Some cv" and "OpenAPIV3Schema cv = Some sch"
    and "Properties sch ''spec'' = Some sp" and "Properties sch ''status'' = Some st"
  shows
    "checkCRD s t n (Typed crd) =
       ([LogRunning n, LogConverted, LogCheckingSpec]
          @ snd (compareSchemaProperties (Properties sp) (visit s expectedSpecProperties))
          @ [LogCheckingStatus]
          @ snd (compareSchemaProperties (Properties st) (visit t expectedStatusProperties))
          @ [CheckComplete]
          @ (if fst (compareSchemaProperties (Properties sp) (visit s expectedSpecProperties))
                \<and> fst (compareSchemaProperties (Properties st)
                           (visit t expectedStatusProperties))
             then [LogUpToDate]
             else [LogOutOfDate]
               @ (if fst (compareSchemaProperties (Properties sp)
                            (visit s expectedSpecProperties))
                  then [] else [LogSpecPropertiesMissing])
               @ (if fst (compareSchemaProperties (Properties st)
                            (visit t expectedStatusProperties))
                  then [] else [LogStatusPropertiesMissing]))
          @ [BlankLine], Returned)
     \<and> (evaluate s t n crd = Some UpToDate \<longleftrightarrow>
        fst (compareSchemaProperties (Properties sp) (visit s expectedSpecProperties))
        \<and> fst (compareSchemaProperties (Properties st) (visit t expectedStatusProperties)))
     \<and> (evaluate s t n crd \<noteq> Some UpToDate \<longrightarrow>
        evaluate s t n crd =
          Some (OutOfDate
            (missing (snd (compareSchemaProperties (Properties sp)
                             (visit s expectedSpecProperties))))
            (missing (snd (compareSchemaProperties (Properties st)
                             (visit t expectedStatusProperties))))))
     \<and> (fst (compareSchemaProperties (Properties sp) (visit s expectedSpecProperties)) \<longleftrightarrow>
        missing (snd (compareSchemaProperties (Properties sp)
                        (visit s expectedSpecProperties))) = [])
     \<and> (fst (compareSchemaProperties (Properties st) (visit t expectedStatusProperties)) \<longleftrightarrow>
        missing (snd (compareSchemaProperties (Properties st)
                        (visit t expectedStatusProperties))) = [])"
proof -
  let ?cs = "compareSchemaProperties (Properties sp) (visit s expectedSpecProperties)"
  let ?ct = "compareSchemaProperties (Properties st) (visit t expectedStatusProperties)"
  have loc: "findV1schema (Versions (Spec crd)) = Some cv"
    using assms(1,2) by (rule located_schema)
  note run = checkCRD_both [OF loc assms(3,4,5), of s t n]
  have lines: "conclusion (fst ?cs) (fst ?ct) =
      (if fst ?cs \<and> fst ?ct then [LogUpToDate]
       else [LogOutOfDate]
         @ (if fst ?cs then [] else [LogSpecPropertiesMissing])
         @ (if fst ?ct then [] else [LogStatusPropertiesMissing]))"
    by (simp add: conclusion_def)
  have ev: "evaluate s t n crd =
      Some (if fst ?cs \<and> fst ?ct then UpToDate
            else OutOfDate (missing (snd ?cs)) (missing (snd ?ct)))"
    unfolding evaluate_def run fst_conv by (rule verdict_both)
  have tr: "checkCRD s t n (Typed crd) =
       ([LogRunning n, LogConverted, LogCheckingSpec] @ snd ?cs @ [LogCheckingStatus]
          @ snd ?ct @ [CheckComplete]
          @ (if fst ?cs \<and> fst ?ct then [LogUpToDate]
             else [LogOutOfDate]
               @ (if fst ?cs then [] else [LogSpecPropertiesMissing])
               @ (if fst ?ct then [] else [LogStatusPropertiesMissing]))
          @ [BlankLine], Returned)"
    unfolding run lines ..
  have v1: "evaluate s t n crd = Some UpToDate \<longleftrightarrow> fst ?cs \<and> fst ?ct"
    unfolding ev by simp
  have v2: "evaluate s t n crd \<noteq> Some UpToDate \<longrightarrow>
      evaluate s t n crd = Some (OutOfDate (missing (snd ?cs)) (missing (snd ?ct)))"
    unfolding ev by simp
  have m1: "fst ?cs \<longleftrightarrow> missing (snd ?cs) = []"
    by (rule fst_compareSchemaProperties_missing)
  have m2: "fst ?ct \<longleftrightarrow> missing (snd ?ct) = []"
    by (rule fst_compareSchemaProperties_missing)
  show ?thesis
    by (intro conjI tr v1 v2 m1 m2)
qed

theorem checkCRD_both_sections_witness:
  "evaluate True False ''Up-to-Date CRD'' mockUpToDateCRDFromCluster = Some UpToDate
   \<and> evaluate False True ''Out-of-Date CRD'' mockOutOfDateCRDFromCluster \<noteq> Some UpToDate
   \<and> evaluate False True ''Out-of-Date CRD'' mockOutOfDateCRDFromCluster
       = Some (OutOfDate [''bar''] [''ready''])"
proof -
  have f1: "List.find (\<lambda>u. Name u = ''v1'') (Versions (Spec mockUpToDateCRDFromCluster))
      = Some \<lparr>Name = ''v1'', Schema = Some \<lparr>OpenAPIV3Schema = Some upToDateSchema\<rparr>\<rparr>"
    by (simp add: mockUpToDateCRDFromCluster_def)
  have s1: "Schema \<lparr>Name = ''v1'', Schema = Some \<lparr>OpenAPIV3Schema = Some upToDateSchema\<rparr>\<rparr>
      = Some \<lparr>OpenAPIV3Schema = Some upToDateSchema\<rparr>"
    by simp
  have o1: "OpenAPIV3Schema \<lparr>OpenAPIV3Schema = Some upToDateSchema\<rparr> = Some upToDateSchema"
    by simp
  note up = checkCRD_both_sections [OF f1 s1 o1 upToDateSchema_sections,
      of True False "''Up-to-Date CRD''", unfolded JSONSchemaProps.sel, THEN conjunct2]
  have u1: "fst (compareSchemaProperties
      (Map.empty(''foo'' \<mapsto> JSONSchemaProps ''string'' [] Map.empty,
                 ''bar'' \<mapsto> JSONSchemaProps ''integer'' ''int64'' Map.empty))
      (visit True expectedSpecProperties))"
    unfolding fst_compareSchemaProperties_missing by (rule missing_upToDate(1))
  have u2: "fst (compareSchemaProperties
      (Map.empty(''message'' \<mapsto> JSONSchemaProps ''string'' [] Map.empty,
                 ''ready'' \<mapsto> JSONSchemaProps ''boolean'' [] Map.empty))
      (visit False expectedStatusProperties))"
    unfolding fst_compareSchemaProperties_missing by (rule missing_upToDate(2))
  have a: "evaluate True False ''Up-to-Date CRD'' mockUpToDateCRDFromCluster = Some UpToDate"
    by (rule up [THEN conjunct1, THEN iffD2, OF conjI [OF u1 u2]])
  have f2: "List.find (\<lambda>u. Name u = ''v1'') (Versions (Spec mockOutOfDateCRDFromCluster))
      = Some \<lparr>Name = ''v1'', Schema = Some \<lparr>OpenAPIV3Schema = Some outOfDateSchema\<rparr>\<rparr>"
    by (simp add: mockOutOfDateCRDFromCluster_def)
  have s2: "Schema \<lparr>Name = ''v1'', Schema = Some \<lparr>OpenAPIV3Schema = Some outOfDateSchema\<rparr>\<rparr>
      = Some \<lparr>OpenAPIV3Schema = Some outOfDateSchema\<rparr>"
    by simp
  have o2: "OpenAPIV3Schema \<lparr>OpenAPIV3Schema = Some outOfDateSchema\<rparr> = Some outOfDateSchema"
    by simp
  note down = checkCRD_both_sections [OF f2 s2 o2 outOfDateSchema_sections,
      of False True "''Out-of-Date CRD''", unfolded JSONSchemaProps.sel, THEN conjunct2]
  have d1: "\<not> fst (compareSchemaProperties
      (Map.empty(''foo'' \<mapsto> JSONSchemaProps ''string'' [] Map.empty))
      (visit False expectedSpecProperties))"
    unfolding fst_compareSchemaProperties_missing missing_outOfDate by simp
  have b: "evaluate False True ''Out-of-Date CRD'' mockOutOfDateCRDFromCluster \<noteq> Some UpToDate"
    using down [THEN conjunct1] d1 by simp
  have c: "evaluate False True ''Out-of-Date CRD'' mockOutOfDateCRDFromCluster
       = Some (OutOfDate [''bar''] [''ready''])"
    using down [THEN conjunct2, THEN conjunct1, THEN mp, OF b]
    unfolding missing_outOfDate .
  show ?thesis
    by (intro conjI a b c)
qed

text \<open>
  C3. When no version is named \<open>v1\<close>, or the first version named \<open>v1\<close> has no
  schema (the \<open>Schema\<close> pointer or its \<open>OpenAPIV3Schema\<close> pointer is nil), the run logs
  the one line of the missing v1 schema and returns: the verdict is \<open>VersionNotFound\<close>
  in both cases, and no property is checked.
\<close>

theorem checkCRD_version_not_found:
  assumes "(\<forall>u \<in> set (Versions (Spec crd)). Name u \<noteq> ''v1'')
    \<or> (\<exists>v. List.find (\<lambda>u. Name u = ''v1'') (Versions (Spec crd)) = Some v
          \<and> (Schema v = None \<or> (\<exists>cv. Schema v = Some cv \<and> OpenAPIV3Schema cv = None)))"
  shows "checkCRD s t n (Typed crd) = ([LogRunning n, LogConverted, LogNoV1Schema n], Returned)
    \<and> evaluate s t n crd = Some VersionNotFound
    \<and> \<not> list_ex isPropertyCheck (fst (checkCRD s t n (Typed crd)))"
proof -
  have "findV1schema (Versions (Spec crd)) = None
      \<or> (\<exists>cv. findV1schema (Versions (Spec crd)) = Some cv \<and> OpenAPIV3Schema cv = None)"
    using assms
  proof (elim disjE exE conjE)
    assume "\<forall>u \<in> set (Versions (Spec crd)). Name u \<noteq> ''v1''"
    then show ?thesis by (simp add: findV1schema_none)
  next
    fix v assume "List.find (\<lambda>u. Name u = ''v1'') (Versions (Spec crd)) = Some v"
      and "Schema v = None"
    then show ?thesis by (simp add: findV1schema_find)
  next
    fix v cv assume "List.find (\<lambda>u. Name u = ''v1'') (Versions (Spec crd)) = Some v"
      and "Schema v = Some cv" and "OpenAPIV3Schema cv = None"
    then show ?thesis by (simp add: findV1schema_find)
  qed
  then have run: "checkCRD s t n (Typed crd)
      = ([LogRunning n, LogConverted, LogNoV1Schema n], Returned)"
    by (rule checkCRD_no_schema)
  show ?thesis
    unfolding evaluate_def run by (simp add: verdict_no_schema)
qed

theorem checkCRD_version_not_found_witness:
  "checkCRD False False ''only v2'' (Typed docOnlyV2)
     = ([LogRunning ''only v2'', LogConverted, LogNoV1Schema ''only v2''], Returned)
   \<and> evaluate False False ''only v2'' docOnlyV2 = Some VersionNotFound
   \<and> checkCRD False False ''no schema'' (Typed docV1NoSchema)
     = ([LogRunning ''no schema'', LogConverted, LogNoV1Schema ''no schema''], Returned)
   \<and> evaluate False False ''no schema'' docV1NoSchema = Some VersionNotFound"
proof -
  have "\<forall>u \<in> set (Versions (Spec docOnlyV2)). Name u \<noteq> ''v1''"
    by (simp add: docOnlyV2_def)
  then have h1: "(\<forall>u \<in> set (Versions (Spec docOnlyV2)). Name u \<noteq> ''v1'')
    \<or> (\<exists>v. List.find (\<lambda>u. Name u = ''v1'') (Versions (Spec docOnlyV2)) = Some v
          \<and> (Schema v = None \<or> (\<exists>cv. Schema v = Some cv \<and> OpenAPIV3Schema cv = None)))"
    by (rule disjI1)
  have f: "List.find (\<lambda>u. Name u = ''v1'') (Versions (Spec docV1NoSchema))
          = Some \<lparr>Name = ''v1'', Schema = Some \<lparr>OpenAPIV3Schema = None\<rparr>\<rparr>"
    by (simp add: docV1NoSchema_def)
  have s: "Schema \<lparr>Name = ''v1'', Schema = Some \<lparr>OpenAPIV3Schema = None\<rparr>\<rparr>
      = Some \<lparr>OpenAPIV3Schema = None\<rparr>"
    by simp
  have o: "OpenAPIV3Schema \<lparr>OpenAPIV3Schema = None\<rparr> = None"
    by simp
  have h2: "(\<forall>u \<in> set (Versions (Spec docV1NoSchema)). Name u \<noteq> ''v1'')
    \<or> (\<exists>v. List.find (\<lambda>u. Name u = ''v1'') (Versions (Spec docV1NoSchema)) = Some v
          \<and> (Schema v = None \<or> (\<exists>cv. Schema v = Some cv \<and> OpenAPIV3Schema cv = None)))"
  proof (rule disjI2,
      rule exI [of _ "\<lparr>Name = ''v1'', Schema = Some \<lparr>OpenAPIV3Schema = None\<rparr>\<rparr>"],
      rule conjI [OF f], rule disjI2, rule exI [of _ "\<lparr>OpenAPIV3Schema = None\<rparr>"])
    show "Schema \<lparr>Name = ''v1'', Schema = Some \<lparr>OpenAPIV3Schema = None\<rparr>\<rparr>
        = Some \<lparr>OpenAPIV3Schema = None\<rparr>
      \<and> OpenAPIV3Schema \<lparr>OpenAPIV3Schema = None\<rparr> = None"
      by (rule conjI [OF s o])
  qed
  note t1 = checkCRD_version_not_found [OF h1, of False False "''only v2''"]
  note t2 = checkCRD_version_not_found [OF h2, of False False "''no schema''"]
  show ?thesis
    by (intro conjI t1 [THEN conjunct1] t1 [THEN conjunct2, THEN conjunct1]
          t2 [THEN conjunct1] t2 [THEN conjunct2, THEN conjunct1])
qed

text \<open>
  C4. When the v1 schema has no \<open>spec\<close> key among its top-level properties, the run
  ends with the line of the missing \<open>spec\<close> section: the verdict is
  \<open>SectionMissing spec\<close>, the header of the status check is never logged and no property
  is checked.
\<close>

theorem checkCRD_spec_missing:
  assumes "List.find (\<lambda>u. Name u = ''v1'') (Versions (Spec crd)) = Some v"
    and "Schema v = Some cv" and "OpenAPIV3Schema cv = Some sch"
    and "Properties sch ''spec'' = None"
  shows "checkCRD s t n (Typed crd)
      = ([LogRunning n, LogConverted, LogCheckingSpec, LogMissingSpec n], Returned)
    \<and> evaluate s t n crd = Some (SectionMissing ''spec'')
    \<and> LogCheckingStatus \<notin> set (fst (checkCRD s t n (Typed crd)))
    \<and> \<not> list_ex isPropertyCheck (fst (checkCRD s t n (Typed crd)))"
proof -
  have loc: "findV1schema (Versions (Spec crd)) = Some cv"
    using assms(1,2) by (rule located_schema)
  show ?thesis
    unfolding evaluate_def checkCRD_no_spec [OF loc assms(3,4)]
    by (simp add: verdict_no_spec)
qed

theorem checkCRD_spec_missing_witness:
  "checkCRD False False ''no spec'' (Typed docNoSpec)
     = ([LogRunning ''no spec'', LogConverted, LogCheckingSpec, LogMissingSpec ''no spec''],
        Returned)
   \<and> evaluate False False ''no spec'' docNoSpec = Some (SectionMissing ''spec'')"
proof -
  have f: "List.find (\<lambda>u. Name u = ''v1'') (Versions (Spec docNoSpec))
      = Some \<lparr>Name = ''v1'', Schema = Some \<lparr>OpenAPIV3Schema = Some statusOnlySchema\<rparr>\<rparr>"
    by (simp add: docNoSpec_def)
  have s: "Schema \<lparr>Name = ''v1'', Schema = Some \<lparr>OpenAPIV3Schema = Some statusOnlySchema\<rparr>\<rparr>
      = Some \<lparr>OpenAPIV3Schema = Some statusOnlySchema\<rparr>"
    by simp
  have o: "OpenAPIV3Schema \<lparr>OpenAPIV3Schema = Some statusOnlySchema\<rparr> = Some statusOnlySchema"
    by simp
  note th = checkCRD_spec_missing [OF f s o statusOnlySchema_sections,
      of False False "''no spec''"]
  show ?thesis
    by (intro conjI th [THEN conjunct1] th [THEN conjunct2, THEN conjunct1])
qed

text \<open>
  C5. When the v1 schema has the \<open>spec\<close> section and no \<open>status\<close> key, the verdict
  is \<open>SectionMissing status\<close>, and the run holds, before the header of the status check,
  the report of the spec check: one line for each of the two expected spec keys.
\<close>

theorem checkCRD_status_missing:
  assumes "List.find (\<lambda>u. Name u = ''v1'') (Versions (Spec crd)) = Some v"
    and "Schema v = Some cv" and "OpenAPIV3Schema cv = Some sch"
    and "Properties sch ''spec'' = Some sp" and "Properties sch ''status'' = None"
  shows "evaluate s t n crd = Some (SectionMissing ''status'')
    \<and> checkCRD s t n (Typed crd)
        = ([LogRunning n, LogConverted, LogCheckingSpec]
             @ snd (compareSchemaProperties (Properties sp) (visit s expectedSpecProperties))
             @ [LogCheckingStatus, LogMissingStatus n], Returned)
    \<and> snd (compareSchemaProperties (Properties sp) (visit s expectedSpecProperties))
        = map (report (Properties sp)) (map fst (visit s expectedSpecProperties))
    \<and> length (snd (compareSchemaProperties (Properties sp) (visit s expectedSpecProperties)))
        = 2"
proof -
  have loc: "findV1schema (Versions (Spec crd)) = Some cv"
    using assms(1,2) by (rule located_schema)
  have len: "length (visit s expectedSpecProperties) = 2"
    by (simp add: visit_def expectedSpecProperties_def)
  show ?thesis
    unfolding evaluate_def checkCRD_no_status [OF loc assms(3,4,5)] fst_conv verdict_no_status
    by (simp add: compareSchemaProperties_eq len)
qed

theorem checkCRD_status_missing_witness:
  "evaluate True False ''no status'' docNoStatus = Some (SectionMissing ''status'')
   \<and> checkCRD True False ''no status'' (Typed docNoStatus)
       = ([LogRunning ''no status'', LogConverted, LogCheckingSpec,
           PropFail ''bar'', PropOk ''foo'',
           LogCheckingStatus, LogMissingStatus ''no status''], Returned)"
proof -
  have f: "List.find (\<lambda>u. Name u = ''v1'') (Versions (Spec docNoStatus))
      = Some \<lparr>Name = ''v1'', Schema = Some \<lparr>OpenAPIV3Schema = Some specOnlySchema\<rparr>\<rparr>"
    by (simp add: docNoStatus_def)
  have s: "Schema \<lparr>Name = ''v1'', Schema = Some \<lparr>OpenAPIV3Schema = Some specOnlySchema\<rparr>\<rparr>
      = Some \<lparr>OpenAPIV3Schema = Some specOnlySchema\<rparr>"
    by simp
  have o: "OpenAPIV3Schema \<lparr>OpenAPIV3Schema = Some specOnlySchema\<rparr> = Some specOnlySchema"
    by simp
  note th = checkCRD_status_missing [OF f s o specOnlySchema_sections, of True False "''no status''"]
  have lines: "map (report (Map.empty(''foo'' \<mapsto> JSONSchemaProps ''string'' [] Map.empty)))
                 (map fst (visit True expectedSpecProperties))
               = [PropFail ''bar'', PropOk ''foo'']"
    unfolding expected_keys by (simp add: report_def)
  have v: "evaluate True False ''no status'' docNoStatus = Some (SectionMissing ''status'')"
    by (rule th [THEN conjunct1])
  have "checkCRD True False ''no status'' (Typed docNoStatus)
       = ([LogRunning ''no status'', LogConverted, LogCheckingSpec]
             @ map (report (Map.empty(''foo'' \<mapsto> JSONSchemaProps ''string'' [] Map.empty)))
                 (map fst (visit True expectedSpecProperties))
             @ [LogCheckingStatus, LogMissingStatus ''no status''], Returned)"
    using th [unfolded JSONSchemaProps.sel, THEN conjunct2, THEN conjunct1]
    unfolding th [unfolded JSONSchemaProps.sel, THEN conjunct2, THEN conjunct2, THEN conjunct1] .
  then have r: "checkCRD True False ''no status'' (Typed docNoStatus)
       = ([LogRunning ''no status'', LogConverted, LogCheckingSpec,
           PropFail ''bar'', PropOk ''foo'',
           LogCheckingStatus, LogMissingStatus ''no status''], Returned)"
    unfolding lines by simp
  show ?thesis
    by (intro conjI v r)
qed

text \<open>
  C6. On the out-of-date document of the source (spec properties \<open>foo\<close>, status
  properties \<open>message\<close>) the run reports \<open>bar\<close> and \<open>ready\<close> as not found and ends
  with the out-of-date conclusion naming both sections, whatever the order in which the
  expected maps are visited: the verdict is \<open>OutOfDate\<close> with \<open>bar\<close> missing in the
  spec section and \<open>ready\<close> missing in the status section.
\<close>

theorem mockOutOfDate_verdict:
  "checkCRD s t n (Typed mockOutOfDateCRDFromCluster) =
     ([LogRunning n, LogConverted, LogCheckingSpec]
        @ (if s then [PropFail ''bar'', PropOk ''foo'']
           else [PropOk ''foo'', PropFail ''bar''])
        @ [LogCheckingStatus]
        @ (if t then [PropFail ''ready'', PropOk ''message'']
           else [PropOk ''message'', PropFail ''ready''])
        @ [CheckComplete, LogOutOfDate, LogSpecPropertiesMissing,
           LogStatusPropertiesMissing, BlankLine], Returned)
   \<and> evaluate s t n mockOutOfDateCRDFromCluster = Some (OutOfDate [''bar''] [''ready''])"
proof -
  let ?A = "Map.empty(''foo'' \<mapsto> JSONSchemaProps ''string'' [] Map.empty)"
  let ?B = "Map.empty(''message'' \<mapsto> JSONSchemaProps ''string'' [] Map.empty)"
  have loc: "findV1schema (Versions (Spec mockOutOfDateCRDFromCluster))
      = Some \<lparr>OpenAPIV3Schema = Some outOfDateSchema\<rparr>"
    by (simp add: mockOutOfDateCRDFromCluster_def)
  have sch: "OpenAPIV3Schema \<lparr>OpenAPIV3Schema = Some outOfDateSchema\<rparr> = Some outOfDateSchema"
    by simp
  note run = checkCRD_both [OF loc sch outOfDateSchema_sections, of s t n,
      unfolded JSONSchemaProps.sel]
  have nospec: "fst (compareSchemaProperties ?A (visit s expectedSpecProperties)) = False"
    by (simp add: fst_compareSchemaProperties_missing missing_outOfDate)
  have nostatus: "fst (compareSchemaProperties ?B (visit t expectedStatusProperties)) = False"
    by (simp add: fst_compareSchemaProperties_missing missing_outOfDate)
  have ls: "snd (compareSchemaProperties ?A (visit s expectedSpecProperties))
      = (if s then [PropFail ''bar'', PropOk ''foo''] else [PropOk ''foo'', PropFail ''bar''])"
    unfolding compareSchemaProperties_eq snd_conv expected_keys by (simp add: report_def)
  have lt: "snd (compareSchemaProperties ?B (visit t expectedStatusProperties))
      = (if t then [PropFail ''ready'', PropOk ''message'']
         else [PropOk ''message'', PropFail ''ready''])"
    unfolding compareSchemaProperties_eq snd_conv expected_keys by (simp add: report_def)
  have cl: "conclusion False False
      = [LogOutOfDate, LogSpecPropertiesMissing, LogStatusPropertiesMissing]"
    by (simp add: conclusion_def)
  have tr: "checkCRD s t n (Typed mockOutOfDateCRDFromCluster) =
     ([LogRunning n, LogConverted, LogCheckingSpec]
        @ (if s then [PropFail ''bar'', PropOk ''foo'']
           else [PropOk ''foo'', PropFail ''bar''])
        @ [LogCheckingStatus]
        @ (if t then [PropFail ''ready'', PropOk ''message'']
           else [PropOk ''message'', PropFail ''ready''])
        @ [CheckComplete, LogOutOfDate, LogSpecPropertiesMissing,
           LogStatusPropertiesMissing, BlankLine], Returned)"
    unfolding run nospec nostatus cl ls lt by simp
  have "evaluate s t n mockOutOfDateCRDFromCluster
      = Some (if fst (compareSchemaProperties ?A (visit s expectedSpecProperties))
                 \<and> fst (compareSchemaProperties ?B (visit t expectedStatusProperties))
              then UpToDate
              else OutOfDate
                (missing (snd (compareSchemaProperties ?A (visit s expectedSpecProperties))))
                (missing (snd (compareSchemaProperties ?B (visit t expectedStatusProperties)))))"
    unfolding evaluate_def run fst_conv by (rule verdict_both)
  then have ev: "evaluate s t n mockOutOfDateCRDFromCluster
      = Some (OutOfDate [''bar''] [''ready''])"
    unfolding nospec missing_outOfDate by simp
  show ?thesis
    by (intro conjI tr ev)
qed



subsection \<open>Claims about the file-writing program\<close>

lemma main_success:
  assumes "mkdirAllErr sys = None" "createOutputErr sys = None" "createErrorErr sys = None"
  shows "snd (main ts sys w) = 0"
    and "stdout (fst (main ts sys w))
           = stdout w @ [''Hello from Go Playground!'',
                         ''This is a simple Go program that runs to completion.'']"
    and "stderr (fst (main ts sys w)) = stderr w"
    and "files (fst (main ts sys w)) (''results/output-'' @ ts @ ''.txt'')
           = Some [''Hello from Go Playground!'',
                   ''This is a simple Go program that runs to completion.'']"
    and "files (fst (main ts sys w)) (''results/error-'' @ ts @ ''.txt'') = Some []"
    and "''results'' \<in> dirs (fst (main ts sys w))"
  using assms by (simp_all add: main_def Let_def fprintln_def)

lemma main_failure:
  assumes "mkdirAllErr sys \<noteq> None \<or> createOutputErr sys \<noteq> None \<or> createErrorErr sys \<noteq> None"
  shows "snd (main ts sys w) = 1"
    and "stderr (fst (main ts sys w)) = stderr w @ [failureMessage sys]"
    and "stdout (fst (main ts sys w)) = stdout w"
  using assms
  by (cases "mkdirAllErr sys"; cases "createOutputErr sys"; cases "createErrorErr sys";
      simp add: main_def Let_def failureMessage_def)+

text \<open>
  C9. When the directory and both files are created, the program exits with code 0,
  has appended its two lines to standard output, the output file
  \<open>results/output-<timestamp>.txt\<close> holds the same two lines, the error file
  \<open>results/error-<timestamp>.txt\<close> exists and is empty, and nothing went to standard
  error. When the creation of the directory or of either file fails, the program exits
  with code 1 after one message on standard error, and nothing went to standard output.
\<close>

theorem main_outcomes:
  "(mkdirAllErr sys = None \<and> createOutputErr sys = None \<and> createErrorErr sys = None \<longrightarrow>
      snd (main ts sys w) = 0
      \<and> stdout (fst (main ts sys w))
          = stdout w @ [''Hello from Go Playground!'',
                        ''This is a simple Go program that runs to completion.'']
      \<and> files (fst (main ts sys w)) (''results/output-'' @ ts @ ''.txt'')
          = Some [''Hello from Go Playground!'',
                  ''This is a simple Go program that runs to completion.'']
      \<and> files (fst (main ts sys w)) (''results/error-'' @ ts @ ''.txt'') = Some []
      \<and> stderr (fst (main ts sys w)) = stderr w
      \<and> ''results'' \<in> dirs (fst (main ts sys w)))
   \<and> (mkdirAllErr sys \<noteq> None \<or> createOutputErr sys \<noteq> None \<or> createErrorErr sys \<noteq> None \<longrightarrow>
      snd (main ts sys w) = 1
      \<and> stderr (fst (main ts sys w)) = stderr w @ [failureMessage sys]
      \<and> stdout (fst (main ts sys w)) = stdout w)"
proof (intro conjI impI)
  assume ok: "mkdirAllErr sys = None \<and> createOutputErr sys = None \<and> createErrorErr sys = None"
  then have a: "mkdirAllErr sys = None" and b: "createOutputErr sys = None"
    and c: "createErrorErr sys = None"
    by simp_all
  show "snd (main ts sys w) = 0"
    by (rule main_success(1) [OF a b c])
  show "stdout (fst (main ts sys w))
          = stdout w @ [''Hello from Go Playground!'',
                        ''This is a simple Go program that runs to completion.'']"
    by (rule main_success(2) [OF a b c])
  show "stderr (fst (main ts sys w)) = stderr w"
    by (rule main_success(3) [OF a b c])
  show "files (fst (main ts sys w)) (''results/output-'' @ ts @ ''.txt'')
          = Some [''Hello from Go Playground!'',
                  ''This is a simple Go program that runs to completion.'']"
    by (rule main_success(4) [OF a b c])
  show "files (fst (main ts sys w)) (''results/error-'' @ ts @ ''.txt'') = Some []"
    by (rule main_success(5) [OF a b c])
  show "''results'' \<in> dirs (fst (main ts sys w))"
    by (rule main_success(6) [OF a b c])
next
  assume bad: "mkdirAllErr sys \<noteq> None \<or> createOutputErr sys \<noteq> None
    \<or> createErrorErr sys \<noteq> None"
  show "snd (main ts sys w) = 1"
    by (rule main_failure(1) [OF bad])
  show "stderr (fst (main ts sys w)) = stderr w @ [failureMessage sys]"
    by (rule main_failure(2) [OF bad])
  show "stdout (fst (main ts sys w)) = stdout w"
    by (rule main_failure(3) [OF bad])
qed

theorem main_outcomes_witness:
  "snd (main ''20260101-120000''
          \<lparr>mkdirAllErr = None, createOutputErr = None, createErrorErr = None\<rparr>
          \<lparr>stdout = [], stderr = [], dirs = {}, files = Map.empty\<rparr>) = 0
   \<and> files (fst (main ''20260101-120000''
          \<lparr>mkdirAllErr = None, createOutputErr = None, createErrorErr = None\<rparr>
          \<lparr>stdout = [], stderr = [], dirs = {}, files = Map.empty\<rparr>))
        ''results/output-20260101-120000.txt''
       = Some [''Hello from Go Playground!'',
               ''This is a simple Go program that runs to completion.'']
   \<and> files (fst (main ''20260101-120000''
          \<lparr>mkdirAllErr = None, createOutputErr = None, createErrorErr = None\<rparr>
          \<lparr>stdout = [], stderr = [], dirs = {}, files = Map.empty\<rparr>))
        ''results/error-20260101-120000.txt'' = Some []
   \<and> snd (main ''20260101-120000''
          \<lparr>mkdirAllErr = None, createOutputErr = Some ''permission denied'',
             createErrorErr = None\<rparr>
          \<lparr>stdout = [], stderr = [], dirs = {}, files = Map.empty\<rparr>) = 1
   \<and> stderr (fst (main ''20260101-120000''
          \<lparr>mkdirAllErr = None, createOutputErr = Some ''permission denied'',
             createErrorErr = None\<rparr>
          \<lparr>stdout = [], stderr = [], dirs = {}, files = Map.empty\<rparr>))
       = [''Error creating output file: permission denied'']"
proof -
  let ?ok = "\<lparr>mkdirAllErr = None, createOutputErr = None, createErrorErr = None\<rparr>"
  let ?bad = "\<lparr>mkdirAllErr = None, createOutputErr = Some ''permission denied'',
                createErrorErr = None\<rparr>"
  let ?w = "\<lparr>stdout = [], stderr = [], dirs = {}, files = Map.empty\<rparr>"
  have hok: "mkdirAllErr ?ok = None \<and> createOutputErr ?ok = None \<and> createErrorErr ?ok = None"
    by simp
  have hbad: "mkdirAllErr ?bad \<noteq> None \<or> createOutputErr ?bad \<noteq> None
      \<or> createErrorErr ?bad \<noteq> None"
    by simp
  note good = main_outcomes [of ?ok "''20260101-120000''" ?w, THEN conjunct1, THEN mp, OF hok]
  note fail = main_outcomes [of ?bad "''20260101-120000''" ?w, THEN conjunct2, THEN mp, OF hbad]
  have p1: "''results/output-'' @ ''20260101-120000'' @ ''.txt''
      = ''results/output-20260101-120000.txt''"
    by simp
  have p2: "''results/error-'' @ ''20260101-120000'' @ ''.txt''
      = ''results/error-20260101-120000.txt''"
    by simp
  have msg: "stderr ?w @ [failureMessage ?bad]
      = [''Error creating output file: permission denied'']"
    by (simp add: failureMessage_def)
  have e1: "snd (main ''20260101-120000'' ?ok ?w) = 0"
    by (rule good [THEN conjunct1])
  have e2: "files (fst (main ''20260101-120000'' ?ok ?w)) ''results/output-20260101-120000.txt''
       = Some [''Hello from Go Playground!'',
               ''This is a simple Go program that runs to completion.'']"
    using good [THEN conjunct2, THEN conjunct2, THEN conjunct1] unfolding p1 .
  have e3: "files (fst (main ''20260101-120000'' ?ok ?w)) ''results/error-20260101-120000.txt''
       = Some []"
    using good [THEN conjunct2, THEN conjunct2, THEN conjunct2, THEN conjunct1] unfolding p2 .
  have e4: "snd (main ''20260101-120000'' ?bad ?w) = 1"
    by (rule fail [THEN conjunct1])
  have e5: "stderr (fst (main ''20260101-120000'' ?bad ?w))
       = [''Error creating output file: permission denied'']"
    using fail [THEN conjunct2, THEN conjunct1] unfolding msg .
  show ?thesis
    by (intro conjI e1 e2 e3 e4 e5)
qed

end
